theory Spec2Isabelle
  imports Complex_Main "HOL-Library.Multiset"
begin

section \<open>Data model of \<^verbatim>\<open>hexrd/fitgrains.py\<close>\<close>

text \<open>
  Floating-point numbers are modelled as reals. A grain-parameter vector is a list of
  reals, a reflection table (the two-dimensional array that \<^verbatim>\<open>np.loadtxt\<close> returns for
  the spots file of a grain) is a list of rows, each row a list of reals, and a 3 x 3
  matrix is a function of its two indices.
\<close>

type_synonym grain_params = "real list"
type_synonym table = "real list list"
type_synonym mat = "nat \<Rightarrow> nat \<Rightarrow> real"
type_synonym job = "nat \<times> grain_params"

datatype exc = Empty | IndexError | IOError | ValueError

text \<open>
  The routines imported from other modules (\<^verbatim>\<open>hexrd.xrd\<close>, \<^verbatim>\<open>hexrd.matrixutil\<close>,
  \<^verbatim>\<open>scipy\<close>, \<^verbatim>\<open>numpy.linalg\<close>) are parameters of the model. The arguments that are
  the same in every call of a run (plane data, detector parameters, distortion, beam and
  eta vectors, the frame reader, panel buffer, npdiv, threshold) are part of the
  parameter function. \<open>pullSpots\<close> gives the rows that the routine writes to the spots
  file of the grain, from the grain id, the grain parameters and the eta, omega and
  two-theta tolerances. \<open>fmt_d\<close> is the conversion \<^verbatim>\<open>%9d\<close> and \<open>fmt_g w\<close> the
  conversion \<^verbatim>\<open>%w.7g\<close> of Python's string formatting.
\<close>

record externals =
  pullSpots :: "nat \<Rightarrow> grain_params \<Rightarrow> real \<Rightarrow> real \<Rightarrow> real \<Rightarrow> table"
  mapAngle :: "real \<Rightarrow> real list \<Rightarrow> real"
  fitGrain :: "table \<Rightarrow> table \<Rightarrow> real list \<Rightarrow> real list \<Rightarrow> real list
                 \<Rightarrow> bool list \<Rightarrow> real list \<Rightarrow> real list \<Rightarrow> grain_params"
  objFuncFitGrain :: "real list \<Rightarrow> grain_params \<Rightarrow> bool list \<Rightarrow> table \<Rightarrow> table
                 \<Rightarrow> real list \<Rightarrow> bool \<Rightarrow> real list"
  vecMVToSymm :: "real list \<Rightarrow> mat"
  linalg_inv :: "mat \<Rightarrow> mat"
  logm :: "mat \<Rightarrow> mat"
  rotMatOfQuat :: "real list list \<Rightarrow> mat list"
  angleAxisOfRotMat :: "mat list \<Rightarrow> real list \<times> real list list"
  fmt_d :: "nat \<Rightarrow> string"
  fmt_g :: "nat \<Rightarrow> real \<Rightarrow> string"

text \<open>
  The entries of the worker's dictionary \<^verbatim>\<open>self._p\<close> that the worker's own code
  reads or writes. \<open>hkls\<close> and \<open>xyo_det\<close> are the two entries that
  \<^verbatim>\<open>FitGrainsWorker.fit_grains\<close> stores.
\<close>

record pkwargs =
  omega_start :: real
  omega_step :: real
  omega_stop :: real
  omega_period :: "real list"
  eta_tol :: "real list"
  omega_tol :: "real list"
  tth_tol :: "real list"
  hkls :: table
  xyo_det :: table

text \<open>The result tuple \<^verbatim>\<open>(id, grain_params, compl, eMat, sum(resd**2))\<close>.\<close>

record fit_result =
  grain_id :: nat
  g_refined :: grain_params
  compl :: real
  eMat :: mat
  resd :: real

text \<open>The module constants \<^verbatim>\<open>gFlag\<close> and \<^verbatim>\<open>gScl\<close>.\<close>

definition gFlag :: "bool list" where
  "gFlag = [True, True, True, True, True, True, True, True, True, True, True, True]"

definition gScl :: "real list" where
  "gScl = [1, 1, 1, 1, 1, 1, 1, 1, 1, 0.01, 0.01, 0.01]"

definition radians :: "real \<Rightarrow> real" where
  "radians d = d * pi / 180"

section \<open>The worker: association and fit of one stage\<close>

text \<open>
  \<^verbatim>\<open>FitGrainsWorker.pull_spots\<close>: reads the three tolerances of the iteration (an
  index past the end of a tolerance list raises) and has \<^verbatim>\<open>pullSpots\<close> write the spots
  file of the grain. The files are a map from the grain id to the rows of its file.
\<close>

definition pull_spots ::
  "externals \<Rightarrow> (nat \<rightharpoonup> table) \<Rightarrow> pkwargs \<Rightarrow> nat \<Rightarrow> grain_params \<Rightarrow> nat
     \<Rightarrow> exc + (nat \<rightharpoonup> table)" where
  "pull_spots ext files p gid grain_params iteration =
     (if length (eta_tol p) \<le> iteration \<or> length (omega_tol p) \<le> iteration
         \<or> length (tth_tol p) \<le> iteration
      then Inl IndexError
      else Inr (files(gid \<mapsto> pullSpots ext gid grain_params (eta_tol p ! iteration)
                  (omega_tol p ! iteration) (tth_tol p ! iteration))))"

text \<open>
  The omega window of \<^verbatim>\<open>fit_grains\<close>: \<^verbatim>\<open>idx_ome\<close> for one predicted omega
  (column 6 of the table).
\<close>

definition idx_ome :: "pkwargs \<Rightarrow> real \<Rightarrow> bool" where
  "idx_ome p pred_ome =
     (if sgn (omega_step p) < 0
      then pred_ome < radians (omega_start p + 2 * omega_step p)
           \<and> pred_ome > radians (omega_stop p - 2 * omega_step p)
      else pred_ome > radians (omega_start p + 2 * omega_step p)
           \<and> pred_ome < radians (omega_stop p - 2 * omega_step p))"

text \<open>
  \<^verbatim>\<open>idx = np.logical_and(valid_refl_ids, idx_ome)\<close> for one row:
  \<^verbatim>\<open>valid_refl_ids = gtable[:, 0] >= 0\<close>, \<^verbatim>\<open>pred_ome = gtable[:, 6]\<close>.
\<close>

definition idx :: "pkwargs \<Rightarrow> real list \<Rightarrow> bool" where
  "idx p row = (row ! 0 \<ge> 0 \<and> idx_ome p (row ! 6))"

text \<open>
  The centroid of a selected row: its last three columns, the third mapped into the omega
  period (\<^verbatim>\<open>xyo_det[:, 2] = mapAngle(xyo_det[:, 2], omega_period)\<close>).
\<close>

definition centroid :: "externals \<Rightarrow> pkwargs \<Rightarrow> real list \<Rightarrow> real list" where
  "centroid ext p row =
     (let c = drop (length row - 3) row
      in c[2 := mapAngle ext (c ! 2) (omega_period p)])"

text \<open>
  \<^verbatim>\<open>FitGrainsWorker.fit_grains\<close>. The table is loaded from the spots file of the grain
  (a missing file raises). For a file of fewer than two rows \<^verbatim>\<open>np.loadtxt\<close> returns a
  one-dimensional array, and \<^verbatim>\<open>gtable[:, 0]\<close> raises. Columns 0 and 6 and the slices
  \<^verbatim>\<open>1:4\<close> and \<^verbatim>\<open>-3:\<close> are read from every row; a table with fewer than seven columns
  raises on column 6. The hkls are
  stored transposed, as three rows. The function returns the grain parameters, the
  completeness and the updated dictionary.
\<close>

definition fit_grains ::
  "externals \<Rightarrow> (nat \<rightharpoonup> table) \<Rightarrow> pkwargs \<Rightarrow> nat \<Rightarrow> grain_params
     \<Rightarrow> exc + (grain_params \<times> real \<times> pkwargs)" where
  "fit_grains ext files p gid grain_params =
     (case files gid of
        None \<Rightarrow> Inl IOError
      | Some gtable \<Rightarrow>
          if length gtable < 2 \<or> list_ex (\<lambda>row. length row < 7) gtable
          then Inl IndexError
          else
            let sel = filter (idx p) gtable;
                hkls' = map (\<lambda>k. map (\<lambda>row. row ! k) sel) [1, 2, 3];
                xyo_det' = map (centroid ext p) sel;
                p' = p\<lparr>hkls := hkls', xyo_det := xyo_det'\<rparr>
            in if length sel \<le> 12 then Inr (grain_params, 0, p')
               else Inr (fitGrain ext xyo_det' hkls'
                           (take 3 grain_params) (take 3 (drop 3 grain_params))
                           (drop 6 grain_params) gFlag gScl (omega_period p'),
                         real (length sel) / real (length gtable), p'))"

section \<open>The worker: one job\<close>

text \<open>
  The loop \<^verbatim>\<open>for iteration in range(2)\<close> of \<^verbatim>\<open>FitGrainsWorker.loop\<close>, over the list
  of the iterations left. The completeness argument is the value of \<^verbatim>\<open>compl\<close> so far;
  Python has none before the first iteration, and the first iteration assigns it.
\<close>

fun for_iterations ::
  "externals \<Rightarrow> nat \<Rightarrow> nat list \<Rightarrow> (nat \<rightharpoonup> table) \<Rightarrow> pkwargs \<Rightarrow> grain_params \<Rightarrow> real
     \<Rightarrow> exc + (grain_params \<times> real \<times> (nat \<rightharpoonup> table) \<times> pkwargs)" where
  "for_iterations ext gid [] files p grain_params c = Inr (grain_params, c, files, p)"
| "for_iterations ext gid (iteration # its) files p grain_params c =
     (case pull_spots ext files p gid grain_params iteration of
        Inl e \<Rightarrow> Inl e
      | Inr files' \<Rightarrow>
          (case fit_grains ext files' p gid grain_params of
             Inl e \<Rightarrow> Inl e
           | Inr (grain_params', c', p') \<Rightarrow>
               if c' = 0 then Inr (grain_params', c', files', p')
               else for_iterations ext gid its files' p' grain_params' c'))"

text \<open>
  Boolean-mask indexing \<^verbatim>\<open>grain_params[gFlag]\<close>: the entries whose flag is set; numpy
  raises when the mask and the vector differ in length.
\<close>

definition mask_select :: "real list \<Rightarrow> bool list \<Rightarrow> exc + real list" where
  "mask_select v m =
     (if length v \<noteq> length m then Inl IndexError
      else Inr (map fst (filter snd (zip v m))))"

text \<open>\<^verbatim>\<open>sum(resd**2)\<close>.\<close>

definition sum_sq :: "real list \<Rightarrow> real" where
  "sum_sq r = sum_list (map (\<lambda>x. x ^ 2) r)"

text \<open>
  The part of \<^verbatim>\<open>FitGrainsWorker.loop\<close> after the two stages: the strain tensor, the
  residual of the objective function on the stored centroids and hkls, and the result
  tuple.
\<close>

definition finalize ::
  "externals \<Rightarrow> nat \<Rightarrow> grain_params \<times> real \<times> (nat \<rightharpoonup> table) \<times> pkwargs
     \<Rightarrow> exc + (fit_result \<times> (nat \<rightharpoonup> table) \<times> pkwargs)" where
  "finalize ext gid out =
     (case out of (grain_params, c, files', p') \<Rightarrow>
        let e = logm ext (linalg_inv ext (vecMVToSymm ext (drop 6 grain_params)))
        in (case mask_select grain_params gFlag of
              Inl x \<Rightarrow> Inl x
            | Inr g_fit \<Rightarrow>
                let r = objFuncFitGrain ext g_fit grain_params gFlag
                          (xyo_det p') (hkls p') (omega_period p') False
                in Inr (\<lparr>grain_id = gid, g_refined = grain_params, compl = c,
                          eMat = e, resd = sum_sq r\<rparr>, files', p')))"

text \<open>
  The body of \<^verbatim>\<open>FitGrainsWorker.loop\<close> after the job has been taken from the queue:
  the two stages, then the result.
\<close>

definition finish_job ::
  "externals \<Rightarrow> (nat \<rightharpoonup> table) \<Rightarrow> pkwargs \<Rightarrow> job
     \<Rightarrow> exc + (fit_result \<times> (nat \<rightharpoonup> table) \<times> pkwargs)" where
  "finish_job ext files p j =
     (case j of (gid, grain_params0) \<Rightarrow>
        (case for_iterations ext gid [0, 1] files p grain_params0 0 of
           Inl e \<Rightarrow> Inl e
         | Inr out \<Rightarrow> finalize ext gid out))"

text \<open>
  A worker on its own: the job queue, the result list, the spots files and its dictionary.
  \<^verbatim>\<open>loop\<close> takes a job without blocking, finishes it and appends the result.
  \<^verbatim>\<open>get(False)\<close> raises \<^verbatim>\<open>Empty\<close> on an empty queue; on a queue of a process pool it
  raises \<^verbatim>\<open>Empty\<close> also while jobs are queued, when the job at the head is not yet
  available to the call (the feeder has not flushed it, or another process holds the read
  lock). \<open>ready\<close> says whether the job at the head is available to this call.
\<close>

record wstate =
  jobs :: "job list"
  results :: "fit_result list"
  spots :: "nat \<rightharpoonup> table"
  pk :: pkwargs

definition loop :: "externals \<Rightarrow> bool \<Rightarrow> wstate \<Rightarrow> exc + wstate" where
  "loop ext ready st =
     (case jobs st of
        [] \<Rightarrow> Inl Empty
      | j # js \<Rightarrow>
          if \<not> ready then Inl Empty
          else
            (case finish_job ext (spots st) (pk st) j of
               Inl e \<Rightarrow> Inl e
             | Inr (r, files', p') \<Rightarrow>
                 Inr \<lparr>jobs = js, results = results st @ [r], spots = files', pk = p'\<rparr>))"

text \<open>
  \<^verbatim>\<open>FitGrainsWorker.run\<close>: \<^verbatim>\<open>while True: try: self.loop() except Empty: break\<close>. Any
  other exception leaves the loop as an exception. \<open>ready k\<close> is the availability of the
  head of the queue at the \<open>k\<close>-th call of \<^verbatim>\<open>loop\<close>.
\<close>

function run :: "externals \<Rightarrow> (nat \<Rightarrow> bool) \<Rightarrow> nat \<Rightarrow> wstate \<Rightarrow> exc + wstate" where
  "run ext ready k st =
     (case loop ext (ready k) st of
        Inl Empty \<Rightarrow> Inr st
      | Inl e \<Rightarrow> Inl e
      | Inr st' \<Rightarrow> run ext ready (Suc k) st')"
  by pat_completeness auto
termination
  by (relation "measure (\<lambda>(ext, ready, k, st). length (jobs st))")
    (auto simp: loop_def split: list.splits sum.splits if_splits)

section \<open>The orchestrator\<close>

text \<open>
  Loading the queue in \<^verbatim>\<open>fit_grains\<close>: \<^verbatim>\<open>phi, n = angleAxisOfRotMat(rotMatOfQuat(quats))\<close>,
  then for the \<open>i\<close>-th quaternion \<^verbatim>\<open>exp_map = phi[i]*n[:, i]\<close> and the job
  \<^verbatim>\<open>(i, hstack([exp_map.flatten(), 0., 0., 0., 1., 1., 1., 0., 0., 0.]))\<close>. \<open>n\<close> is
  an array of rows, one column per quaternion; an index past the end of \<open>phi\<close> or of a
  row of \<open>n\<close> raises.
\<close>

definition load_queue :: "externals \<Rightarrow> real list list \<Rightarrow> exc + job list" where
  "load_queue ext quats =
     (case angleAxisOfRotMat ext (rotMatOfQuat ext quats) of
        (phi, n) \<Rightarrow>
          if length phi < length quats \<or> list_ex (\<lambda>row. length row < length quats) n
          then Inl IndexError
          else Inr (map (\<lambda>i. (i, map (\<lambda>row. phi ! i * row ! i) n
                                    @ [0, 0, 0, 1, 1, 1, 0, 0, 0]))
                      [0..<length quats]))"

text \<open>
  \<^verbatim>\<open>sorted(results)\<close> orders the result tuples by their first component that differs.
  With distinct grain ids that is the id. With two equal ids the comparison goes on to the
  parameter arrays, and comparing two arrays of twelve numbers has no truth value: numpy
  raises \<^verbatim>\<open>ValueError\<close>.
\<close>

definition sorted_results :: "fit_result list \<Rightarrow> exc + fit_result list" where
  "sorted_results rs =
     (if distinct (map grain_id rs) then Inr (sort_key grain_id rs) else Inl ValueError)"

text \<open>The header of \<^verbatim>\<open>grains.out\<close> and the column widths \<^verbatim>\<open>len_items\<close>.\<close>

definition header_items :: "string list" where
  "header_items =
     [''grain ID'', ''completeness'', ''sum(resd**2)/nrefl'',
      ''xi[0]'', ''xi[1]'', ''xi[2]'', ''tVec_c[0]'', ''tVec_c[1]'', ''tVec_c[2]'',
      ''vInv_s[0]'', ''vInv_s[1]'', ''vInv_s[2]'', ''vInv_s[4]*sqrt(2)'',
      ''vInv_s[5]*sqrt(2)'', ''vInv_s[6]*sqrt(2)'', ''ln(V[0,0])'',
      ''ln(V[1,1])'', ''ln(V[2,2])'', ''ln(V[1,2])'', ''ln(V[0,2])'', ''ln(V[0,1])'']"

definition len_items :: "nat list" where
  "len_items = map (\<lambda>i. if length i > 14 then length i else 14) (tl header_items)"

text \<open>\<^verbatim>\<open>'%ws' % s\<close>: the string, padded with blanks on the left to the width.\<close>

definition fmt_s :: "nat \<Rightarrow> string \<Rightarrow> string" where
  "fmt_s w s = replicate (w - length s) (CHR '' '') @ s"

fun join :: "string \<Rightarrow> string list \<Rightarrow> string" where
  "join sep [] = []"
| "join sep [x] = x"
| "join sep (x # y # ys) = x @ sep @ join sep (y # ys)"

definition header_line :: string where
  "header_line =
     ''#'' @ fmt_s 8 (hd header_items) @ ''  ''
       @ join ''  '' (map2 fmt_s len_items (tl header_items)) @ [CHR 0x0A]"

text \<open>
  The numbers of one row after the id, \<^verbatim>\<open>res_items[1:]\<close>: completeness, residual, the
  twelve parameters, and the six entries of \<^verbatim>\<open>eMat\<close>. A parameter vector with fewer than
  twelve entries raises.
\<close>

definition res_items :: "fit_result \<Rightarrow> exc + real list" where
  "res_items r =
     (let g = g_refined r; e = eMat r
      in if length g < 12 then Inl IndexError
         else Inr [compl r, resd r, g ! 0, g ! 1, g ! 2, g ! 3, g ! 4, g ! 5, g ! 6,
                   g ! 7, g ! 8, g ! 9, g ! 10, g ! 11,
                   e 0 0, e 1 1, e 2 2, e 1 2, e 0 2, e 0 1])"

definition row_line :: "externals \<Rightarrow> nat \<Rightarrow> real list \<Rightarrow> string" where
  "row_line ext gid items =
     fmt_d ext gid @ ''  '' @ join ''  '' (map2 (fmt_g ext) len_items items) @ [CHR 0x0A]"

fun row_lines :: "externals \<Rightarrow> fit_result list \<Rightarrow> exc + string list" where
  "row_lines ext [] = Inr []"
| "row_lines ext (r # rs) =
     (case res_items r of
        Inl e \<Rightarrow> Inl e
      | Inr items \<Rightarrow>
          (case row_lines ext rs of
             Inl e \<Rightarrow> Inl e
           | Inr ls \<Rightarrow> Inr (row_line ext (grain_id r) items # ls)))"

text \<open>The lines written to \<^verbatim>\<open>grains.out\<close>: the header, then one row per sorted result.\<close>

definition grains_out :: "externals \<Rightarrow> fit_result list \<Rightarrow> exc + string list" where
  "grains_out ext rs =
     (case sorted_results rs of
        Inl e \<Rightarrow> Inl e
      | Inr srt \<Rightarrow>
          (case row_lines ext srt of
             Inl e \<Rightarrow> Inl e
           | Inr ls \<Rightarrow> Inr (header_line # ls)))"

section \<open>The pool of workers\<close>

text \<open>
  Several workers share the job queue, the result list and the spots files; each has its
  own copy of the dictionary. A worker that has taken a job holds it until it appends the
  result. A schedule is the list of the workers whose turn it is, one step each, with the
  availability of the head of the queue at that step: a worker without a job takes one
  from the queue, or leaves its loop when the dequeue signals an empty queue; a worker
  with a job finishes it and appends the result, or dies with the exception, and its job
  is lost. The spots file of a job is written and read by the
  worker that holds the job only, so the two stages of a job are one step.
\<close>

record worker =
  holding :: "job option"
  wpk :: pkwargs
  alive :: bool

record pool =
  queue :: "job list"
  collected :: "fit_result list"
  disk :: "nat \<rightharpoonup> table"
  workers :: "worker list"

definition step :: "externals \<Rightarrow> nat \<times> bool \<Rightarrow> pool \<Rightarrow> pool" where
  "step ext turn s =
     (case turn of (w, ready) \<Rightarrow>
     (if w \<ge> length (workers s) then s
      else let wk = workers s ! w
           in if \<not> alive wk then s
              else (case holding wk of
                      None \<Rightarrow>
                        (case queue s of
                           [] \<Rightarrow> s\<lparr>workers := (workers s)[w := wk\<lparr>alive := False\<rparr>]\<rparr>
                         | j # js \<Rightarrow>
                             if \<not> ready
                             then s\<lparr>workers := (workers s)[w := wk\<lparr>alive := False\<rparr>]\<rparr>
                             else s\<lparr>queue := js,
                                    workers := (workers s)[w := wk\<lparr>holding := Some j\<rparr>]\<rparr>)
                    | Some j \<Rightarrow>
                        (case finish_job ext (disk s) (wpk wk) j of
                           Inl e \<Rightarrow> s\<lparr>workers := (workers s)[w := wk\<lparr>alive := False\<rparr>]\<rparr>
                         | Inr (r, files', p') \<Rightarrow>
                             s\<lparr>collected := collected s @ [r], disk := files',
                               workers := (workers s)[w := wk\<lparr>holding := None, wpk := p'\<rparr>]\<rparr>))))"

fun exec :: "externals \<Rightarrow> (nat \<times> bool) list \<Rightarrow> pool \<Rightarrow> pool" where
  "exec ext [] s = s"
| "exec ext (turn # turns) s = exec ext turns (step ext turn s)"

text \<open>
  The pool that \<^verbatim>\<open>fit_grains\<close> starts: the loaded queue, no results, and \<open>ncpus\<close>
  workers, each with a deep copy of the dictionary.
\<close>

definition start_pool ::
  "externals \<Rightarrow> real list list \<Rightarrow> (nat \<rightharpoonup> table) \<Rightarrow> pkwargs \<Rightarrow> nat \<Rightarrow> exc + pool" where
  "start_pool ext quats files p ncpus =
     (case load_queue ext quats of
        Inl e \<Rightarrow> Inl e
      | Inr js \<Rightarrow>
          Inr \<lparr>queue = js, collected = [], disk = files,
               workers = replicate ncpus \<lparr>holding = None, wpk = p, alive = True\<rparr>\<rparr>)"

text \<open>Every worker has completed its jobs: the queue is empty and no worker holds a job.\<close>

definition all_done :: "pool \<Rightarrow> bool" where
  "all_done s = (queue s = [] \<and> list_all (\<lambda>wk. holding wk = None) (workers s))"

text \<open>
  The grain ids in a pool, with their multiplicities: those of the jobs in the queue, of
  the jobs held by the workers, and of the results collected.
\<close>

definition held :: "worker \<Rightarrow> nat multiset" where
  "held wk = (case holding wk of None \<Rightarrow> {#} | Some j \<Rightarrow> {#fst j#})"

definition ids_of :: "pool \<Rightarrow> nat multiset" where
  "ids_of s = mset (map fst (queue s)) + sum_list (map held (workers s))
                + mset (map grain_id (collected s))"

text \<open>A matrix is symmetric (on the indices 0, 1, 2).\<close>

definition symm3 :: "mat \<Rightarrow> bool" where
  "symm3 m = (m 0 1 = m 1 0 \<and> m 0 2 = m 2 0 \<and> m 1 2 = m 2 1)"

section \<open>An instance for evaluation\<close>

text \<open>
  A concrete run. The scan has 360 frames of one degree from 0. \<open>pullSpots\<close> writes, for
  grain 0, one reflection inside the omega window and two rejected ones, and for any other
  grain thirteen reflections inside the window and three rejected ones (one flagged
  invalid, two at the edges of the scan). \<open>fitGrain\<close> returns fixed parameters with a
  sheared stretch. \<open>vecMVToSymm\<close> is the Mandel-Voigt reconstruction, with the shear
  components divided by the square root of two. \<open>linalg_inv\<close> and \<open>logm\<close> are the
  inverse and the logarithm of the matrices with rows \<open>(a, 0, 0)\<close>, \<open>(0, c, s)\<close>,
  \<open>(0, s, c)\<close>, where \<open>a > 0\<close> and \<open>c > \<bar>s\<bar>\<close>. The objective function returns the
  residual 2 for every centroid. \<open>rotMatOfQuat\<close> gives the rotation matrix of each unit
  quaternion \<open>(w, x, y, z)\<close>, and \<open>angleAxisOfRotMat\<close> the angle and the axis of each
  matrix, the axis \<open>(1, 0, 0)\<close> for the angle 0.
\<close>

definition row_in :: "real list" where
  "row_in = [0, 1, 0, 0, 100, 50, pi, 0, 0, 0, 5, 6, pi]"

definition row_flagged :: "real list" where
  "row_flagged = [-999, 1, 1, 0, 0, 0, pi, 0, 0, 0, 0, 0, 0]"

definition row_edge_lo :: "real list" where
  "row_edge_lo = [1, 0, 1, 0, 100, 50, 0, 0, 0, 0, 7, 8, 0]"

definition row_edge_hi :: "real list" where
  "row_edge_hi = [2, 0, 0, 1, 100, 50, 2 * pi, 0, 0, 0, 7, 8, 2 * pi]"

definition block_inv :: "mat \<Rightarrow> mat" where
  "block_inv m =
     (\<lambda>i j. if i = 0 \<and> j = 0 then 1 / m 0 0
            else if i = 0 \<or> j = 0 then 0
            else if i = j then m 1 1 / (m 1 1 ^ 2 - m 1 2 ^ 2)
            else - m 1 2 / (m 1 1 ^ 2 - m 1 2 ^ 2))"

definition block_logm :: "mat \<Rightarrow> mat" where
  "block_logm m =
     (\<lambda>i j. if i = 0 \<and> j = 0 then ln (m 0 0)
            else if i = 0 \<or> j = 0 then 0
            else if i = j then (ln (m 1 1 + m 1 2) + ln (m 1 1 - m 1 2)) / 2
            else (ln (m 1 1 + m 1 2) - ln (m 1 1 - m 1 2)) / 2)"

definition mv_to_symm :: "real list \<Rightarrow> mat" where
  "mv_to_symm a =
     (\<lambda>i j. if i = j then a ! i
            else if i + j = 3 then a ! 3 / sqrt 2
            else if i + j = 2 then a ! 4 / sqrt 2
            else a ! 5 / sqrt 2)"

definition quat_rot :: "real list \<Rightarrow> mat" where
  "quat_rot q =
     (let w = q ! 0; x = q ! 1; y = q ! 2; z = q ! 3
      in (\<lambda>i j.
            if i = 0
            then (if j = 0 then 1 - 2 * (y ^ 2 + z ^ 2)
                  else if j = 1 then 2 * (x * y - z * w) else 2 * (x * z + y * w))
            else if i = 1
            then (if j = 0 then 2 * (x * y + z * w)
                  else if j = 1 then 1 - 2 * (x ^ 2 + z ^ 2) else 2 * (y * z - x * w))
            else (if j = 0 then 2 * (x * z - y * w)
                  else if j = 1 then 2 * (y * z + x * w) else 1 - 2 * (x ^ 2 + y ^ 2))))"

definition rot_angle :: "mat \<Rightarrow> real" where
  "rot_angle r = arccos ((r 0 0 + r 1 1 + r 2 2 - 1) / 2)"

definition rot_axis :: "mat \<Rightarrow> real list" where
  "rot_axis r =
     (if rot_angle r = 0 then [1, 0, 0]
      else [(r 2 1 - r 1 2) / (2 * sin (rot_angle r)),
            (r 0 2 - r 2 0) / (2 * sin (rot_angle r)),
            (r 1 0 - r 0 1) / (2 * sin (rot_angle r))])"

definition ext0 :: externals where
  "ext0 =
     \<lparr>pullSpots = (\<lambda>gid g e_tol o_tol t_tol.
          if gid = 0 then [row_in, row_flagged, row_edge_lo]
          else replicate 13 row_in @ [row_flagged, row_edge_lo, row_edge_hi]),
      mapAngle = (\<lambda>a period. a),
      fitGrain = (\<lambda>xyo h xi t v flags scl period.
          [0, 0, 0, 0, 0, 0, 1, 5 / 2, 5 / 2, - 3 * sqrt 2 / 2, 0, 0]),
      objFuncFitGrain = (\<lambda>g_fit g_full flags xyo h period sim_only. map (\<lambda>c. 2) xyo),
      vecMVToSymm = mv_to_symm,
      linalg_inv = block_inv,
      logm = block_logm,
      rotMatOfQuat = map quat_rot,
      angleAxisOfRotMat = (\<lambda>rs. (map rot_angle rs,
          [map (\<lambda>r. rot_axis r ! 0) rs, map (\<lambda>r. rot_axis r ! 1) rs,
           map (\<lambda>r. rot_axis r ! 2) rs])),
      fmt_d = (\<lambda>n. replicate n (CHR ''|'')),
      fmt_g = (\<lambda>w x. if x = 0 then ''0'' else ''x'')\<rparr>"

definition p0 :: pkwargs where
  "p0 =
     \<lparr>omega_start = 0, omega_step = 1, omega_stop = 360,
      omega_period = [- pi, pi],
      eta_tol = [1, 1 / 2], omega_tol = [1, 1 / 2], tth_tol = [1 / 4, 1 / 5],
      hkls = [], xyo_det = []\<rparr>"

definition g0 :: grain_params where
  "g0 = [0, 0, 0, 0, 0, 0, 1, 1, 1, 0, 0, 0]"

definition g_fit :: grain_params where
  "g_fit = [0, 0, 0, 0, 0, 0, 1, 5 / 2, 5 / 2, - 3 * sqrt 2 / 2, 0, 0]"

text \<open>
  The spots tables of grain 0 and of the other grains, the dictionary after a stage on
  each, and the results of the jobs \<open>(0, g0)\<close> and \<open>(1, g0)\<close>.
\<close>

definition tbl_few :: table where
  "tbl_few = [row_in, row_flagged, row_edge_lo]"

definition tbl_many :: table where
  "tbl_many = replicate 13 row_in @ [row_flagged, row_edge_lo, row_edge_hi]"

definition p_few :: pkwargs where
  "p_few = p0\<lparr>hkls := [[1], [0], [0]], xyo_det := [[5, 6, pi]]\<rparr>"

definition p_many :: pkwargs where
  "p_many = p0\<lparr>hkls := [replicate 13 1, replicate 13 0, replicate 13 0],
                xyo_det := replicate 13 [5, 6, pi]\<rparr>"

definition res_lo :: fit_result where
  "res_lo = \<lparr>grain_id = 0, g_refined = g0, compl = 0,
              eMat = block_logm (block_inv (mv_to_symm (drop 6 g0))), resd = 4\<rparr>"

definition res_hi :: fit_result where
  "res_hi = \<lparr>grain_id = 1, g_refined = g_fit, compl = 13 / 16,
              eMat = block_logm (block_inv (mv_to_symm (drop 6 g_fit))), resd = 52\<rparr>"

text \<open>
  A second instance: \<open>pullSpots\<close> writes thirteen valid reflections for the parameters
  \<open>g0\<close> and one for any other parameters, and the objective function returns two
  residuals for every centroid, its first two coordinates less 4. The job \<open>(0, g0)\<close> is
  fitted in the first stage and left with one reflection in the second; \<open>res_deg\<close> is
  its result.
\<close>

definition ext1 :: externals where
  "ext1 =
     ext0\<lparr>pullSpots := (\<lambda>gid g e_tol o_tol t_tol. if g = g0 then tbl_many else tbl_few),
          objFuncFitGrain := (\<lambda>g_fit g_full flags xyo h period sim_only.
              concat (map (\<lambda>c. [c ! 0 - 4, c ! 1 - 4]) xyo))\<rparr>"


text \<open>The pool started for two quaternions and two workers.\<close>

definition pool0 :: pool where
  "pool0 =
     \<lparr>queue = [(0, g0), (1, g0)], collected = [], disk = Map.empty,
      workers = [\<lparr>holding = None, wpk = p0, alive = True\<rparr>,
                 \<lparr>holding = None, wpk = p0, alive = True\<rparr>]\<rparr>"

section \<open>Lemmas about the stages, the job and the report\<close>

lemma fit_grains_few:
  assumes "files gid = Some gtable" "\<not> list_ex (\<lambda>row. length row < 7) gtable"
    and "length (filter (idx p) gtable) \<le> 12" and "2 \<le> length gtable"
  shows "fit_grains ext files p gid g =
     Inr (g, 0, p\<lparr>hkls := map (\<lambda>k. map (\<lambda>row. row ! k) (filter (idx p) gtable)) [1, 2, 3],
                  xyo_det := map (centroid ext p) (filter (idx p) gtable)\<rparr>)"
  using assms by (simp add: fit_grains_def Let_def)

lemma fit_grains_many:
  assumes "files gid = Some gtable" "\<not> list_ex (\<lambda>row. length row < 7) gtable"
    and "12 < length (filter (idx p) gtable)"
  shows "fit_grains ext files p gid g =
     Inr (fitGrain ext (map (centroid ext p) (filter (idx p) gtable))
            (map (\<lambda>k. map (\<lambda>row. row ! k) (filter (idx p) gtable)) [1, 2, 3])
            (take 3 g) (take 3 (drop 3 g)) (drop 6 g) gFlag gScl (omega_period p),
          real (length (filter (idx p) gtable)) / real (length gtable),
          p\<lparr>hkls := map (\<lambda>k. map (\<lambda>row. row ! k) (filter (idx p) gtable)) [1, 2, 3],
            xyo_det := map (centroid ext p) (filter (idx p) gtable)\<rparr>)"
  proof -
  have "2 \<le> length gtable"
    using assms(3) length_filter_le [of "idx p" gtable] by linarith
  then show ?thesis using assms by (simp add: fit_grains_def Let_def)
qed

lemma fit_grains_short_table:
  "files gid = Some gtable \<Longrightarrow> length gtable < 2 \<Longrightarrow>
     fit_grains ext files p gid g = Inl IndexError"
  by (simp add: fit_grains_def)

lemma pull_spots_file:
  "pull_spots ext files p gid g it = Inr files' \<Longrightarrow>
     files' = files(gid \<mapsto> pullSpots ext gid g (eta_tol p ! it) (omega_tol p ! it) (tth_tol p ! it))"
  by (auto simp: pull_spots_def split: if_splits)

lemma row_lines_rows:
  "row_lines ext rs = Inr ls \<Longrightarrow>
     length ls = length rs
     \<and> (\<forall>k<length rs. \<exists>items. res_items (rs ! k) = Inr items
            \<and> ls ! k = row_line ext (grain_id (rs ! k)) items)"
proof (induction rs arbitrary: ls)
  case Nil
  then show ?case by simp
next
  case (Cons r rs)
  then obtain items ls' where
    i: "res_items r = Inr items" and l: "row_lines ext rs = Inr ls'"
    and ls: "ls = row_line ext (grain_id r) items # ls'"
    by (auto split: sum.splits)
  from Cons.IH [OF l] show ?case using i ls by (auto simp: nth_Cons split: nat.splits)
qed

lemma sort_key_perm_distinct:
  assumes "distinct (map f xs)" and "mset ys = mset xs"
  shows "sort_key f ys = sort_key f xs"
proof -
  have s: "set ys = set xs" using assms(2) by (rule mset_eq_setD)
  have d: "distinct (map f ys)"
  proof -
    have "mset (map f ys) = mset (map f xs)" using assms(2) by simp
    then show ?thesis using assms(1) by (metis mset_eq_imp_distinct_iff)
  qed
  have "map f (sort_key f ys) = map f (sort_key f xs)"
  proof (rule sorted_distinct_set_unique)
    show "sorted (map f (sort_key f ys))" by simp
    show "sorted (map f (sort_key f xs))" by simp
    show "distinct (map f (sort_key f ys))" using d by (simp add: distinct_map)
    show "distinct (map f (sort_key f xs))" using assms(1) by (simp add: distinct_map)
    show "set (map f (sort_key f ys)) = set (map f (sort_key f xs))" using s by simp
  qed
  moreover have "inj_on f (set (sort_key f ys) \<union> set (sort_key f xs))"
    using assms(1) s by (simp add: distinct_map)
  ultimately show ?thesis by (simp add: inj_on_map_eq_map)
qed


lemma pull_spots_not_Empty: "pull_spots ext files p gid g it \<noteq> Inl Empty"
  by (simp add: pull_spots_def)

lemma fit_grains_not_Empty: "fit_grains ext files p gid g \<noteq> Inl Empty"
  by (simp add: fit_grains_def Let_def split: option.splits)

lemma for_iterations_not_Empty: "for_iterations ext gid its files p g c \<noteq> Inl Empty"
proof (induction its arbitrary: files p g c)
  case Nil
  then show ?case by simp
next
  case (Cons it its)
  then show ?case
    using pull_spots_not_Empty fit_grains_not_Empty
    by (auto split: sum.splits)
qed

lemma finalize_not_Empty: "finalize ext gid out \<noteq> Inl Empty"
  by (auto simp: finalize_def mask_select_def Let_def split: prod.splits sum.splits if_splits)

lemma finish_job_not_Empty: "finish_job ext files p j \<noteq> Inl Empty"
  using for_iterations_not_Empty [of ext _ "[0, 1]"] finalize_not_Empty
  by (auto simp: finish_job_def simp del: for_iterations.simps split: prod.splits sum.splits)

lemma finalize_id: "finalize ext gid out = Inr (r, f, p') \<Longrightarrow> grain_id r = gid"
  by (auto simp: finalize_def Let_def split: prod.splits sum.splits)

lemma finish_job_id: "finish_job ext files p j = Inr (r, f, p') \<Longrightarrow> grain_id r = fst j"
  by (auto simp: finish_job_def simp del: for_iterations.simps
        split: prod.splits sum.splits dest: finalize_id)

lemma loop_Empty_iff: "loop ext b st = Inl Empty \<longleftrightarrow> jobs st = [] \<or> \<not> b"
  using finish_job_not_Empty
  by (auto simp: loop_def split: list.splits sum.splits)

lemma loop_step:
  "loop ext b st = Inr st' \<Longrightarrow>
     \<exists>j r. jobs st = j # jobs st' \<and> results st' = results st @ [r] \<and> grain_id r = fst j"
  by (auto simp: loop_def split: list.splits sum.splits if_splits dest: finish_job_id)

lemma run_result:
  "run ext ready k st = Inr st' \<Longrightarrow>
     \<exists>taken rs. loop ext (ready (k + length taken)) st' = Inl Empty
        \<and> jobs st = taken @ jobs st' \<and> results st' = results st @ rs
        \<and> map grain_id rs = map fst taken"
proof (induction ext ready k st rule: run.induct)
  case (1 ext ready k st)
  show ?case
  proof (cases "loop ext (ready k) st")
    case (Inl e)
    with "1.prems" have e: "e = Empty" and s: "st' = st"
      by (auto split: exc.splits)
    have "loop ext (ready (k + length ([] :: job list))) st' = Inl Empty"
      using Inl e s by simp
    moreover have "jobs st = [] @ jobs st'" using s by simp
    moreover have "results st' = results st @ []" using s by simp
    ultimately show ?thesis by (metis list.simps(8))
  next
    case (Inr st1)
    with "1.prems" have r: "run ext ready (Suc k) st1 = Inr st'" by simp
    from "1.IH" [OF Inr r] obtain taken rs where
      a: "loop ext (ready (Suc k + length taken)) st' = Inl Empty"
      and b: "jobs st1 = taken @ jobs st'"
      and c: "results st' = results st1 @ rs"
      and d: "map grain_id rs = map fst taken" by blast
    from loop_step [OF Inr] obtain j r0 where
      e: "jobs st = j # jobs st1" and f: "results st1 = results st @ [r0]"
      and g: "grain_id r0 = fst j" by blast
    have "loop ext (ready (k + length (j # taken))) st' = Inl Empty" using a by simp
    moreover have "jobs st = (j # taken) @ jobs st'" using b e by simp
    moreover have "results st' = results st @ (r0 # rs)" using c f by simp
    moreover have "map grain_id (r0 # rs) = map fst (j # taken)" using d g by simp
    ultimately show ?thesis by blast
  qed
qed

lemma run_not_Empty: "run ext ready k st \<noteq> Inl Empty"
proof (induction ext ready k st rule: run.induct)
  case (1 ext ready k st)
  show ?case
  proof (cases "loop ext (ready k) st")
    case (Inl e)
    then show ?thesis by (cases e) simp_all
  next
    case (Inr st1)
    with "1.IH" [OF Inr] show ?thesis by simp
  qed
qed

lemma finalize_len: "finalize ext gid out = Inr (r, f, p') \<Longrightarrow> length (g_refined r) = 12"
  by (auto simp: finalize_def mask_select_def gFlag_def Let_def
        split: prod.splits sum.splits if_splits)

lemma finish_job_len:
  "finish_job ext files p j = Inr (r, f, p') \<Longrightarrow> length (g_refined r) = 12"
  by (auto simp: finish_job_def simp del: for_iterations.simps
        split: prod.splits sum.splits dest: finalize_len)

lemma mask_all_True:
  "length v = length m \<Longrightarrow> list_all (\<lambda>b. b) m \<Longrightarrow> map fst (filter snd (zip v m)) = v"
  by (induction v m rule: list_induct2) auto

lemma mask_select_gFlag: "length g = 12 \<Longrightarrow> mask_select g gFlag = Inr g"
proof -
  assume l: "length g = 12"
  have "length g = length gFlag" using l by (simp add: gFlag_def)
  moreover have "list_all (\<lambda>b. b) gFlag" by (simp add: gFlag_def)
  ultimately show ?thesis by (simp add: mask_select_def mask_all_True)
qed

lemma finalize_full:
  "length g = 12 \<Longrightarrow>
   finalize ext gid (g, c, files', p') =
     Inr (\<lparr>grain_id = gid, g_refined = g, compl = c,
           eMat = logm ext (linalg_inv ext (vecMVToSymm ext (drop 6 g))),
           resd = sum_sq (objFuncFitGrain ext g g gFlag (xyo_det p') (hkls p')
                            (omega_period p') False)\<rparr>, files', p')"
  by (simp add: finalize_def mask_select_gFlag)

lemma finish_job_eMat:
  assumes "finish_job ext files p j = Inr (r, files', p')"
  shows "eMat r = logm ext (linalg_inv ext (vecMVToSymm ext (drop 6 (g_refined r))))"
  using assms
  by (auto simp: finish_job_def finalize_def Let_def simp del: for_iterations.simps
        split: prod.splits sum.splits)

lemma sum_list_held_update:
  "w < length ws \<Longrightarrow>
     sum_list (map held (ws[w := wk])) + held (ws ! w) = sum_list (map held ws) + held wk"
proof (induction ws arbitrary: w)
  case Nil
  then show ?case by simp
next
  case (Cons a ws)
  show ?case
  proof (cases w)
    case 0
    then show ?thesis by (simp add: add.commute)
  next
    case (Suc k)
    with Cons.prems have "k < length ws" by simp
    from Cons.IH [OF this] Suc show ?thesis by (simp add: add.assoc)
  qed
qed

lemma held_simps [simp]:
  "held (wk\<lparr>alive := b\<rparr>) = held wk"
  "held (wk\<lparr>holding := Some j\<rparr>) = {#fst j#}"
  "held (wk\<lparr>holding := None, wpk := q\<rparr>) = {#}"
  by (simp_all add: held_def)

lemma step_ids: "ids_of (step ext (w, b) s) = ids_of s"
proof (cases "w < length (workers s) \<and> alive (workers s ! w)")
  case False
  then show ?thesis by (auto simp: step_def Let_def)
next
  case True
  then have w: "w < length (workers s)" and al: "alive (workers s ! w)" by simp_all
  let ?wk = "workers s ! w"
  have leave: "sum_list (map held ((workers s)[w := ?wk\<lparr>alive := False\<rparr>]))
                 = sum_list (map held (workers s))"
    using sum_list_held_update [OF w, of "?wk\<lparr>alive := False\<rparr>"] by simp
  show ?thesis
  proof (cases "holding ?wk")
    case None
    then have h0: "held ?wk = {#}" by (simp add: held_def)
    show ?thesis
    proof (cases "queue s")
      case Nil
      then show ?thesis using w al None leave by (simp add: step_def Let_def ids_of_def)
    next
      case (Cons j js)
      show ?thesis
      proof (cases b)
        case False
        then show ?thesis
          using w al None Cons leave by (simp add: step_def Let_def ids_of_def)
      next
        case True
        have "sum_list (map held ((workers s)[w := ?wk\<lparr>holding := Some j\<rparr>]))
                = sum_list (map held (workers s)) + {#fst j#}"
          using sum_list_held_update [OF w, of "?wk\<lparr>holding := Some j\<rparr>"] h0 by simp
        then show ?thesis
          using w al None Cons True by (simp add: step_def Let_def ids_of_def)
      qed
    qed
  next
    case (Some j)
    then have hj: "held ?wk = {#fst j#}" by (simp add: held_def)
    show ?thesis
    proof (cases "finish_job ext (disk s) (wpk ?wk) j")
      case (Inl e)
      then show ?thesis using w al Some leave by (simp add: step_def Let_def ids_of_def)
    next
      case (Inr x)
      then obtain r f q where x: "x = (r, f, q)" by (cases x) auto
      have g: "grain_id r = fst j" using Inr x finish_job_id by blast
      have "sum_list (map held ((workers s)[w := ?wk\<lparr>holding := None, wpk := q\<rparr>])) + {#fst j#}
              = sum_list (map held (workers s))"
        using sum_list_held_update [OF w, of "?wk\<lparr>holding := None, wpk := q\<rparr>"] hj by simp
      then have "sum_list (map held (workers s))
              = sum_list (map held ((workers s)[w := ?wk\<lparr>holding := None, wpk := q\<rparr>])) + {#fst j#}"
        by (rule sym)
      then show ?thesis using w al Some Inr x g by (simp add: step_def Let_def ids_of_def)
    qed
  qed
qed

lemma exec_ids: "ids_of (exec ext sched s) = ids_of s"
proof (induction sched arbitrary: s)
  case Nil
  then show ?case by simp
next
  case (Cons turn turns)
  obtain w b where t: "turn = (w, b)" by (cases turn)
  show ?case using Cons.IH [of "step ext turn s"] step_ids [of ext w b s] t by simp
qed

lemma load_queue_ids: "load_queue ext quats = Inr js \<Longrightarrow> map fst js = [0..<length quats]"
  by (auto simp: load_queue_def map_idI split: prod.splits if_splits)

lemma sum_list_held_none:
  "list_all (\<lambda>wk. holding wk = None) ws \<Longrightarrow> sum_list (map held ws) = {#}"
  by (induction ws) (simp_all add: held_def)

lemma row_lines_total:
  "\<forall>r \<in> set rs. length (g_refined r) = 12 \<Longrightarrow> \<exists>ls. row_lines ext rs = Inr ls"
proof (induction rs)
  case Nil
  then show ?case by simp
next
  case (Cons r rs)
  then obtain ls where l: "row_lines ext rs = Inr ls" by auto
  have "length (g_refined r) = 12" using Cons.prems by simp
  then obtain items where "res_items r = Inr items" by (simp add: res_items_def Let_def)
  then show ?case using l by simp
qed

section \<open>Facts about the instance\<close>

lemma ext0_sel [simp]:
  "pullSpots ext0 = (\<lambda>gid g e_tol o_tol t_tol.
          if gid = 0 then [row_in, row_flagged, row_edge_lo]
          else replicate 13 row_in @ [row_flagged, row_edge_lo, row_edge_hi])"
  "mapAngle ext0 = (\<lambda>a period. a)"
  "fitGrain ext0 = (\<lambda>xyo h xi t v flags scl period. g_fit)"
  "objFuncFitGrain ext0 = (\<lambda>g_fit g_full flags xyo h period sim_only. map (\<lambda>c. 2) xyo)"
  "vecMVToSymm ext0 = mv_to_symm"
  "linalg_inv ext0 = block_inv"
  "logm ext0 = block_logm"
  by (simp_all add: ext0_def g_fit_def)

lemma p0_sel [simp]:
  "omega_start p0 = 0" "omega_step p0 = 1" "omega_stop p0 = 360" "omega_period p0 = [- pi, pi]"
  "eta_tol p0 = [1, 1 / 2]" "omega_tol p0 = [1, 1 / 2]" "tth_tol p0 = [1 / 4, 1 / 5]"
  by (simp_all add: p0_def)

lemma idx_rows [simp]:
  "idx p0 row_in" "\<not> idx p0 row_flagged" "\<not> idx p0 row_edge_lo" "\<not> idx p0 row_edge_hi"
  using pi_gt_zero
  by (simp_all add: idx_def idx_ome_def radians_def row_in_def row_flagged_def row_edge_lo_def row_edge_hi_def)

lemma len_rows [simp]:
  "length row_in = 13" "length row_flagged = 13" "length row_edge_lo = 13" "length row_edge_hi = 13"
  by (simp_all add: row_in_def row_flagged_def row_edge_lo_def row_edge_hi_def)

lemma ext0_quat [simp]:
  "rotMatOfQuat ext0 = map quat_rot"
  "angleAxisOfRotMat ext0 = (\<lambda>rs. (map rot_angle rs,
          [map (\<lambda>r. rot_axis r ! 0) rs, map (\<lambda>r. rot_axis r ! 1) rs,
           map (\<lambda>r. rot_axis r ! 2) rs]))"
  by (simp_all add: ext0_def)

lemma rot_identity [simp]:
  "rot_angle (quat_rot [1, 0, 0, 0]) = 0" "rot_axis (quat_rot [1, 0, 0, 0]) = [1, 0, 0]"
proof -
  show a: "rot_angle (quat_rot [1, 0, 0, 0]) = 0"
    by (simp add: rot_angle_def quat_rot_def)
  show "rot_axis (quat_rot [1, 0, 0, 0]) = [1, 0, 0]"
    by (simp add: rot_axis_def a)
qed

lemma rot_quarter_turn [simp]:
  "rot_angle (quat_rot [sqrt 2 / 2, 0, 0, sqrt 2 / 2]) = pi / 2"
  "rot_axis (quat_rot [sqrt 2 / 2, 0, 0, sqrt 2 / 2]) = [0, 0, 1]"
proof -
  have s: "(sqrt 2 / 2) ^ 2 = (1 / 2 :: real)" "sqrt 2 / 2 * (sqrt 2 / 2) = (1 / 2 :: real)"
    by (simp_all add: power2_eq_square)
  show a: "rot_angle (quat_rot [sqrt 2 / 2, 0, 0, sqrt 2 / 2]) = pi / 2"
    by (simp add: rot_angle_def quat_rot_def Let_def s)
  have "pi / 2 \<noteq> (0 :: real)" using pi_gt_zero by simp
  then show "rot_axis (quat_rot [sqrt 2 / 2, 0, 0, sqrt 2 / 2]) = [0, 0, 1]"
    unfolding rot_axis_def a by (simp add: quat_rot_def Let_def s)
qed

lemma load_queue_ext0:
  "load_queue ext0 [[1, 0, 0, 0], [1, 0, 0, 0]] = Inr [(0, g0), (1, g0)]"
  by (simp add: load_queue_def g0_def)

lemma load_queue_turn:
  "load_queue ext0 [[1, 0, 0, 0], [sqrt 2 / 2, 0, 0, sqrt 2 / 2]]
     = Inr [(0, g0), (1, [0, 0, pi / 2, 0, 0, 0, 1, 1, 1, 0, 0, 0])]"
  by (simp add: load_queue_def g0_def)


lemma tbl_ok [simp]:
  "\<not> list_ex (\<lambda>row. length row < 7) tbl_few" "\<not> list_ex (\<lambda>row. length row < 7) tbl_many"
  by (simp_all add: tbl_few_def tbl_many_def list_ex_iff)

lemma tbl_sel [simp]:
  "filter (idx p0) tbl_few = [row_in]" "filter (idx p0) tbl_many = replicate 13 row_in"
  "length tbl_few = 3" "length tbl_many = 16"
  by (simp_all add: tbl_few_def tbl_many_def)

lemma idx_p_many [simp]: "idx p_many = idx p0"
  by (rule ext) (simp add: idx_def idx_ome_def p_many_def)

lemma centroid_row_in [simp]:
  "centroid ext0 p0 row_in = [5, 6, pi]" "centroid ext0 p_many row_in = [5, 6, pi]"
  by (simp_all add: centroid_def row_in_def)

lemma row_in_cols [simp]: "row_in ! Suc 0 = 1" "row_in ! 2 = 0" "row_in ! 3 = 0"
  by (simp_all add: row_in_def)

lemma pull_spots_ext0 [simp]:
  "pull_spots ext0 files p0 0 g 0 = Inr (files(0 \<mapsto> tbl_few))"
  "pull_spots ext0 files p0 (Suc 0) g 0 = Inr (files(Suc 0 \<mapsto> tbl_many))"
  "pull_spots ext0 files p_many (Suc 0) g (Suc 0) = Inr (files(Suc 0 \<mapsto> tbl_many))"
  by (simp_all add: pull_spots_def tbl_few_def tbl_many_def p_many_def)

lemma fit_few: "fit_grains ext0 (files(0 \<mapsto> tbl_few)) p0 0 g = Inr (g, 0, p_few)"
  by (simp add: fit_grains_few [where gtable = tbl_few] p_few_def)

lemma fit_many_1:
  "fit_grains ext0 (files(Suc 0 \<mapsto> tbl_many)) p0 (Suc 0) g = Inr (g_fit, 13 / 16, p_many)"
  by (simp add: fit_grains_many [where gtable = tbl_many] p_many_def)

lemma fit_many_2:
  "fit_grains ext0 (files(Suc 0 \<mapsto> tbl_many)) p_many (Suc 0) g = Inr (g_fit, 13 / 16, p_many)"
  by (simp add: fit_grains_many [where gtable = tbl_many]) (simp add: p_many_def)

lemma stages_few:
  "for_iterations ext0 0 [0, 1] files p0 g 0 = Inr (g, 0, files(0 \<mapsto> tbl_few), p_few)"
  by (simp add: fit_few)

lemma stages_many:
  "for_iterations ext0 (Suc 0) [0, 1] files p0 g 0
     = Inr (g_fit, 13 / 16, files(Suc 0 \<mapsto> tbl_many), p_many)"
  by (simp add: fit_many_1 fit_many_2)

lemma len_g [simp]: "length g0 = 12" "length g_fit = 12"
  by (simp_all add: g0_def g_fit_def)

lemma job_few: "finish_job ext0 files p0 (0, g0) = Inr (res_lo, files(0 \<mapsto> tbl_few), p_few)"
proof -
  have "finalize ext0 0 (g0, 0, files(0 \<mapsto> tbl_few), p_few)
          = Inr (res_lo, files(0 \<mapsto> tbl_few), p_few)"
    by (simp add: finalize_full res_lo_def p_few_def sum_sq_def)
  then show ?thesis
    unfolding finish_job_def prod.case stages_few sum.case .
qed

lemma job_many:
  "finish_job ext0 files p0 (Suc 0, g0) = Inr (res_hi, files(Suc 0 \<mapsto> tbl_many), p_many)"
proof -
  have "finalize ext0 (Suc 0) (g_fit, 13 / 16, files(Suc 0 \<mapsto> tbl_many), p_many)
          = Inr (res_hi, files(Suc 0 \<mapsto> tbl_many), p_many)"
    by (simp add: finalize_full res_hi_def p_many_def sum_sq_def sum_list_replicate)
  then show ?thesis
    unfolding finish_job_def prod.case stages_many sum.case .
qed

lemma ln_quarter: "ln (1 / 4 :: real) = - (2 * ln 2)"
proof -
  have "ln (4 :: real) = ln (2 ^ 2)" by simp
  also have "\<dots> = real 2 * ln 2" by (rule ln_realpow)
  finally have l4: "ln (4 :: real) = 2 * ln 2" by simp
  have "ln (1 / 4 :: real) = ln 1 - ln 4" by (rule ln_divide_pos) simp_all
  then show ?thesis using l4 by simp
qed

lemma stretch_g_fit:
  "mv_to_symm (drop 6 g_fit) 0 0 = 1" "mv_to_symm (drop 6 g_fit) (Suc 0) (Suc 0) = 5 / 2"
  "mv_to_symm (drop 6 g_fit) (Suc 0) 2 = - 3 / 2"
  by (simp_all add: mv_to_symm_def g_fit_def)

lemma inv_g_fit:
  "block_inv (mv_to_symm (drop 6 g_fit)) 0 0 = 1"
  "block_inv (mv_to_symm (drop 6 g_fit)) (Suc 0) (Suc 0) = 5 / 8"
  "block_inv (mv_to_symm (drop 6 g_fit)) (Suc 0) 2 = 3 / 8"
  by (simp_all add: block_inv_def stretch_g_fit power2_eq_square)

lemma strain_g_fit:
  "block_logm (block_inv (mv_to_symm (drop 6 g_fit))) 0 0 = 0"
  "block_logm (block_inv (mv_to_symm (drop 6 g_fit))) (Suc 0) (Suc 0) = - ln 2"
  "block_logm (block_inv (mv_to_symm (drop 6 g_fit))) 2 2 = - ln 2"
  "block_logm (block_inv (mv_to_symm (drop 6 g_fit))) (Suc 0) 2 = ln 2"
  "block_logm (block_inv (mv_to_symm (drop 6 g_fit))) 0 2 = 0"
  "block_logm (block_inv (mv_to_symm (drop 6 g_fit))) 0 (Suc 0) = 0"
  by (simp_all add: block_logm_def inv_g_fit ln_quarter)

lemma res_items_hi:
  "res_items res_hi = Inr [13 / 16, 52, 0, 0, 0, 0, 0, 0, 1, 5 / 2, 5 / 2, - 3 * sqrt 2 / 2, 0, 0,
                           0, - ln 2, - ln 2, ln 2, 0, 0]"
proof -
  have "g_refined res_hi = g_fit" "compl res_hi = 13 / 16" "resd res_hi = 52"
    "eMat res_hi = block_logm (block_inv (mv_to_symm (drop 6 g_fit)))"
    by (simp_all add: res_hi_def)
  then show ?thesis
    by (simp add: res_items_def Let_def strain_g_fit) (simp add: g_fit_def)
qed

lemma start_pool0: "start_pool ext0 [[1, 0, 0, 0], [1, 0, 0, 0]] Map.empty p0 2 = Inr pool0"
  by (simp add: start_pool_def load_queue_ext0 pool0_def numeral_2_eq_2)

lemma exec_pool0:
  "exec ext0 [(0, True), (1, True), (1, True), (0, True), (0, True), (1, True)] pool0 =
     \<lparr>queue = [], collected = [res_hi, res_lo],
      disk = Map.empty(Suc 0 \<mapsto> tbl_many, 0 \<mapsto> tbl_few),
      workers = [\<lparr>holding = None, wpk = p_few, alive = False\<rparr>,
                 \<lparr>holding = None, wpk = p_many, alive = False\<rparr>]\<rparr>"
  by (simp add: pool0_def step_def Let_def job_few job_many)

lemma strain_g0:
  "block_logm (block_inv (mv_to_symm (drop 6 g0))) 0 0 = 0"
  "block_logm (block_inv (mv_to_symm (drop 6 g0))) (Suc 0) (Suc 0) = 0"
  "block_logm (block_inv (mv_to_symm (drop 6 g0))) 2 2 = 0"
  "block_logm (block_inv (mv_to_symm (drop 6 g0))) (Suc 0) 2 = 0"
  "block_logm (block_inv (mv_to_symm (drop 6 g0))) 0 2 = 0"
  "block_logm (block_inv (mv_to_symm (drop 6 g0))) 0 (Suc 0) = 0"
  by (simp_all add: block_logm_def block_inv_def mv_to_symm_def g0_def)

lemma res_items_lo:
  "res_items res_lo = Inr [0, 4, 0, 0, 0, 0, 0, 0, 1, 1, 1, 0, 0, 0, 0, 0, 0, 0, 0, 0]"
proof -
  have "g_refined res_lo = g0" "compl res_lo = 0" "resd res_lo = 4"
    "eMat res_lo = block_logm (block_inv (mv_to_symm (drop 6 g0)))"
    by (simp_all add: res_lo_def)
  then show ?thesis
    by (simp add: res_items_def Let_def strain_g0) (simp add: g0_def)
qed

lemma ext1_sel [simp]:
  "pullSpots ext1 = (\<lambda>gid g e_tol o_tol t_tol. if g = g0 then tbl_many else tbl_few)"
  "mapAngle ext1 = (\<lambda>a period. a)"
  "fitGrain ext1 = (\<lambda>xyo h xi t v flags scl period. g_fit)"
  "objFuncFitGrain ext1 = (\<lambda>g_fit g_full flags xyo h period sim_only.
      concat (map (\<lambda>c. [c ! 0 - 4, c ! 1 - 4]) xyo))"
  "vecMVToSymm ext1 = mv_to_symm"
  "linalg_inv ext1 = block_inv"
  "logm ext1 = block_logm"
  by (simp_all add: ext1_def)

lemma g_fit_not_g0 [simp]: "g_fit \<noteq> g0"
  by (simp add: g_fit_def g0_def)

lemma centroid_ext1 [simp]:
  "centroid ext1 p0 row_in = [5, 6, pi]" "centroid ext1 p_many row_in = [5, 6, pi]"
  by (simp_all add: centroid_def row_in_def)

section \<open>The claims\<close>



text \<open>
  Claim C2, as amended. The result of a job carries the matrix logarithm of the inverse of
  the tensor reconstructed from the last six parameters. It is symmetric when the
  reconstruction gives a symmetric tensor and inversion and logarithm keep symmetry. The
  six strain columns of the report row are its entries (0,0), (1,1), (2,2), (1,2), (0,2),
  (0,1) as they are: the off-diagonal entries are not multiplied by the square root of two.
\<close>

theorem strain_columns:
  assumes "finish_job ext files p j = Inr (r, files', p')"
    and "res_items r = Inr items"
    and "\<forall>v. symm3 (vecMVToSymm ext v)"
    and "\<forall>m. symm3 m \<longrightarrow> symm3 (linalg_inv ext m)"
    and "\<forall>m. symm3 m \<longrightarrow> symm3 (logm ext m)"
  shows "eMat r = logm ext (linalg_inv ext (vecMVToSymm ext (drop 6 (g_refined r))))
         \<and> symm3 (eMat r)
         \<and> length items = 20
         \<and> drop 14 items = [eMat r 0 0, eMat r 1 1, eMat r 2 2, eMat r 1 2, eMat r 0 2, eMat r 0 1]"
proof -
  have e: "eMat r = logm ext (linalg_inv ext (vecMVToSymm ext (drop 6 (g_refined r))))"
    using assms(1) by (rule finish_job_eMat)
  have s: "symm3 (eMat r)" unfolding e using assms(3-5) by blast
  have i: "length items = 20
     \<and> drop 14 items = [eMat r 0 0, eMat r 1 1, eMat r 2 2, eMat r 1 2, eMat r 0 2, eMat r 0 1]"
    using assms(2) by (auto simp: res_items_def Let_def split: if_splits)
  show ?thesis using e s i by blast
qed

theorem strain_columns_witness:
  "finish_job ext0 Map.empty p0 (1, g0) = Inr (res_hi, Map.empty(1 \<mapsto> tbl_many), p_many)
   \<and> symm3 (eMat res_hi)
   \<and> eMat res_hi 1 2 = ln 2"
proof -
  have a: "finish_job ext0 Map.empty p0 (1, g0) = Inr (res_hi, Map.empty(1 \<mapsto> tbl_many), p_many)"
    using job_many [of Map.empty] by simp
  have h3: "\<forall>v. symm3 (vecMVToSymm ext0 v)" by (simp add: symm3_def mv_to_symm_def)
  have h4: "\<forall>m. symm3 m \<longrightarrow> symm3 (linalg_inv ext0 m)" by (simp add: symm3_def block_inv_def)
  have h5: "\<forall>m. symm3 m \<longrightarrow> symm3 (logm ext0 m)" by (simp add: symm3_def block_logm_def)
  from strain_columns [OF a res_items_hi h3 h4 h5]
  have "symm3 (eMat res_hi)" by blast
  moreover have "eMat res_hi 1 2 = ln 2" by (simp add: res_hi_def strain_g_fit)
  ultimately show ?thesis using a by blast
qed

text \<open>
  The claim as stated, with the off-diagonal columns equal to the square root of two times
  the entries of the logarithm, fails on the job \<open>(1, g0)\<close> of the instance: the column
  \<^verbatim>\<open>ln(V[1,2])\<close> of its row holds \<open>ln 2\<close>, the entry (1,2) of the logarithm itself.
\<close>

theorem strain_offdiag_counterexample:
  "finish_job ext0 Map.empty p0 (1, g0) = Inr (res_hi, Map.empty(1 \<mapsto> tbl_many), p_many)
   \<and> map_sum id (drop 14) (res_items res_hi) = Inr [0, - ln 2, - ln 2, ln 2, 0, 0]
   \<and> logm ext0 (linalg_inv ext0 (vecMVToSymm ext0 (drop 6 (g_refined res_hi)))) 1 2 = ln 2
   \<and> ln 2 \<noteq> sqrt 2 * ln (2::real)"
proof -
  have a: "finish_job ext0 Map.empty p0 (1, g0) = Inr (res_hi, Map.empty(1 \<mapsto> tbl_many), p_many)"
    using job_many [of Map.empty] by simp
  have b: "logm ext0 (linalg_inv ext0 (vecMVToSymm ext0 (drop 6 (g_refined res_hi)))) 1 2 = ln 2"
    by (simp add: res_hi_def strain_g_fit)
  have "sqrt 2 \<noteq> (1::real)" by simp
  moreover have "ln (2::real) \<noteq> 0" by simp
  ultimately have c: "ln 2 \<noteq> sqrt 2 * ln (2::real)" by simp
  show ?thesis using a b c by (simp add: res_items_hi)
qed

text \<open>
  Claim C3. When the fit of a stage is run (more than twelve valid reflections), the
  completeness returned is the number of valid reflections divided by the number of rows
  of the reflection table of the stage, and it lies between 0 and 1.
\<close>

theorem completeness_ratio:
  assumes "files gid = Some gtable"
    and "\<not> list_ex (\<lambda>row. length row < 7) gtable"
    and "12 < length (filter (idx p) gtable)"
  shows "\<exists>g' p'. fit_grains ext files p gid g
             = Inr (g', real (length (filter (idx p) gtable)) / real (length gtable), p')
           \<and> 0 \<le> real (length (filter (idx p) gtable)) / real (length gtable)
           \<and> real (length (filter (idx p) gtable)) / real (length gtable) \<le> 1"
proof -
  have "length (filter (idx p) gtable) \<le> length gtable" by (rule length_filter_le)
  moreover have "0 < length gtable" using assms(3) length_filter_le [of "idx p" gtable] by linarith
  ultimately have "real (length (filter (idx p) gtable)) / real (length gtable) \<le> 1"
    by (simp add: divide_le_eq_1)
  then show ?thesis using assms by (simp add: fit_grains_many)
qed

theorem completeness_ratio_witness:
  "\<exists>g' p'. fit_grains ext0 (Map.empty(1 \<mapsto> replicate 13 row_in @ [row_flagged, row_edge_lo, row_edge_hi])) p0 1 g0
             = Inr (g', 13 / 16, p')"
  using completeness_ratio [of "Map.empty(1 \<mapsto> replicate 13 row_in @ [row_flagged, row_edge_lo, row_edge_hi])"
      1 "replicate 13 row_in @ [row_flagged, row_edge_lo, row_edge_hi]" p0 ext0 g0]
  by (simp add: list_ex_iff)

text \<open>
  Claim C4. The residual of a result is the sum of the squares of the objective function
  at the final parameters, with all twelve entries passed and simulation off
  (\<open>finalize_full\<close>). The report writes this sum as it is, under the header
  \<^verbatim>\<open>sum(resd**2)/nrefl\<close>: on the job \<open>(1, g0)\<close> of the instance, with thirteen
  reflections and the residual 2 for each, the column holds 52, not 52 / 13.
\<close>

theorem residual_column_not_normalized:
  "finish_job ext0 Map.empty p0 (1, g0) = Inr (res_hi, Map.empty(1 \<mapsto> tbl_many), p_many)
   \<and> length (xyo_det p_many) = 13
   \<and> sum_sq (objFuncFitGrain ext0 g_fit g_fit gFlag (xyo_det p_many) (hkls p_many)
               (omega_period p_many) False) = 52
   \<and> resd res_hi = 52
   \<and> map_sum id (\<lambda>items. items ! 1) (res_items res_hi) = Inr 52
   \<and> header_items ! 2 = ''sum(resd**2)/nrefl''
   \<and> (52::real) \<noteq> 52 / 13"
proof -
  have a: "finish_job ext0 Map.empty p0 (1, g0) = Inr (res_hi, Map.empty(1 \<mapsto> tbl_many), p_many)"
    using job_many [of Map.empty] by simp
  have b: "sum_sq (objFuncFitGrain ext0 g_fit g_fit gFlag (xyo_det p_many) (hkls p_many)
               (omega_period p_many) False) = 52"
    by (simp add: p_many_def sum_sq_def sum_list_replicate)
  have c: "header_items ! 2 = ''sum(resd**2)/nrefl''" by (simp add: header_items_def)
  show ?thesis using a b c by (simp add: res_items_hi) (simp add: res_hi_def p_many_def)
qed

text \<open>
  Claim C5. A row of the reflection table counts as valid exactly when its flag (column 0)
  is not negative and its predicted omega (column 6) lies strictly inside the scan range
  shrunk by two steps at each end, the bounds turned from degrees into radians: above
  start + 2 step and below stop - 2 step, or the other way round when the step is negative.
  The centroids and hkls stored by the stage are those of the valid rows, and the count
  that decides between the fit and completeness 0 is their number.
\<close>

theorem valid_reflections:
  assumes "files gid = Some gtable"
    and "fit_grains ext files p gid g = Inr (g', c, p')"
  shows "(\<forall>row. idx p row \<longleftrightarrow>
            row ! 0 \<ge> 0 \<and>
            (if omega_step p < 0
             then row ! 6 < radians (omega_start p + 2 * omega_step p)
                  \<and> radians (omega_stop p - 2 * omega_step p) < row ! 6
             else radians (omega_start p + 2 * omega_step p) < row ! 6
                  \<and> row ! 6 < radians (omega_stop p - 2 * omega_step p)))
         \<and> xyo_det p' = map (centroid ext p) (filter (idx p) gtable)
         \<and> hkls p' = map (\<lambda>k. map (\<lambda>row. row ! k) (filter (idx p) gtable)) [1, 2, 3]
         \<and> (c = 0 \<longleftrightarrow> length (filter (idx p) gtable) \<le> 12)
         \<and> (c \<noteq> 0 \<longrightarrow> c = real (length (filter (idx p) gtable)) / real (length gtable))"
proof -
  have a: "\<forall>row. idx p row \<longleftrightarrow>
            row ! 0 \<ge> 0 \<and>
            (if omega_step p < 0
             then row ! 6 < radians (omega_start p + 2 * omega_step p)
                  \<and> radians (omega_stop p - 2 * omega_step p) < row ! 6
             else radians (omega_start p + 2 * omega_step p) < row ! 6
                  \<and> row ! 6 < radians (omega_stop p - 2 * omega_step p))"
    by (simp add: idx_def idx_ome_def)
  have ok: "\<not> list_ex (\<lambda>row. length row < 7) gtable"
    using assms by (auto simp: fit_grains_def split: if_splits)
  have ok2: "2 \<le> length gtable"
    using assms by (auto simp: fit_grains_def split: if_splits)
  show ?thesis
  proof (cases "length (filter (idx p) gtable) \<le> 12")
    case True
    then show ?thesis using a assms ok ok2 by (auto simp: fit_grains_few)
  next
    case False
    then have m: "12 < length (filter (idx p) gtable)" by simp
    have "0 < length gtable" using m length_filter_le [of "idx p" gtable] by linarith
    then have "real (length (filter (idx p) gtable)) / real (length gtable) \<noteq> 0"
      using m by auto
    then show ?thesis using a assms ok m by (auto simp: fit_grains_many)
  qed
qed

theorem valid_reflections_witness:
  "fit_grains ext0 (Map.empty(0 \<mapsto> [row_in, row_flagged, row_edge_lo])) p0 0 g0
     = Inr (g0, 0, p0\<lparr>hkls := [[1], [0], [0]], xyo_det := [[5, 6, pi]]\<rparr>)
   \<and> idx p0 row_in \<and> \<not> idx p0 row_flagged \<and> \<not> idx p0 row_edge_lo
   \<and> map (centroid ext0 p0) (filter (idx p0) [row_in, row_flagged, row_edge_lo]) = [[5, 6, pi]]
   \<and> length (filter (idx p0) [row_in, row_flagged, row_edge_lo]) \<le> 12"
proof -
  have f: "(Map.empty(0 \<mapsto> [row_in, row_flagged, row_edge_lo])) (0::nat)
             = Some [row_in, row_flagged, row_edge_lo]"
    by simp
  have h: "fit_grains ext0 (Map.empty(0 \<mapsto> [row_in, row_flagged, row_edge_lo])) p0 0 g0
     = Inr (g0, 0, p0\<lparr>hkls := [[1], [0], [0]], xyo_det := [[5, 6, pi]]\<rparr>)"
    by (simp add: fit_grains_few centroid_def) (simp add: row_in_def)
  note v = valid_reflections [OF f h]
  have "map (centroid ext0 p0) (filter (idx p0) [row_in, row_flagged, row_edge_lo])
          = [[5, 6, pi]]"
    using conjunct1 [OF conjunct2 [OF v]] by simp
  then show ?thesis using h by simp
qed

text \<open>
  Claim C6. When the conversion returns an angle for every quaternion and an axis array
  of three rows with a column for every quaternion, the queue is loaded with one job for
  every quaternion: the job of the \<open>i\<close>-th quaternion carries the id \<open>i\<close> and a vector
  of twelve entries, the angle times the three components of the axis that the conversion
  gives for that quaternion, then 0, 0, 0 for the translation, then 1, 1, 1, 0, 0, 0 for
  the stretch.
\<close>

theorem initial_params:
  assumes "angleAxisOfRotMat ext (rotMatOfQuat ext quats) = (phi, n)"
    and "length quats \<le> length phi"
    and "length n = 3"
    and "\<forall>row \<in> set n. length quats \<le> length row"
  shows "\<exists>js. load_queue ext quats = Inr js
           \<and> length js = length quats
           \<and> (\<forall>i<length quats.
                 js ! i = (i, [phi ! i * n ! 0 ! i, phi ! i * n ! 1 ! i, phi ! i * n ! 2 ! i,
                               0, 0, 0, 1, 1, 1, 0, 0, 0])
                 \<and> length (snd (js ! i)) = 12)"
proof -
  from assms(3) obtain a b c where n: "n = [a, b, c]"
    by (cases n; cases "tl n"; cases "tl (tl n)") auto
  let ?js = "map (\<lambda>i. (i, map (\<lambda>row. phi ! i * row ! i) n
                                    @ [0, 0, 0, 1, 1, 1, 0, 0, 0])) [0..<length quats]"
  have "\<not> list_ex (\<lambda>row. length row < length quats) n"
    using assms(4) by (auto simp: list_ex_iff)
  then have l: "load_queue ext quats = Inr ?js"
    using assms(1,2) by (simp add: load_queue_def)
  have "\<forall>i<length quats.
                 ?js ! i = (i, [phi ! i * n ! 0 ! i, phi ! i * n ! 1 ! i, phi ! i * n ! 2 ! i,
                               0, 0, 0, 1, 1, 1, 0, 0, 0])
                 \<and> length (snd (?js ! i)) = 12"
    by (simp add: n)
  then show ?thesis using l by (intro exI [of _ ?js]) simp
qed

theorem initial_params_witness:
  "load_queue ext0 [[1, 0, 0, 0], [sqrt 2 / 2, 0, 0, sqrt 2 / 2]]
     = Inr [(0, [0, 0, 0, 0, 0, 0, 1, 1, 1, 0, 0, 0]),
            (1, [0, 0, pi / 2, 0, 0, 0, 1, 1, 1, 0, 0, 0])]"
proof -
  let ?quats = "[[1, 0, 0, 0], [sqrt 2 / 2, 0, 0, sqrt 2 / 2]] :: real list list"
  have h1: "angleAxisOfRotMat ext0 (rotMatOfQuat ext0 ?quats)
              = ([0, pi / 2], [[1, 0], [0, 0], [0, 1]])"
    by simp
  have h2: "length ?quats \<le> length [0, pi / 2 :: real]" by simp
  have h3: "length [[1, 0], [0, 0], [0, 1 :: real]] = 3" by simp
  have h4: "\<forall>row \<in> set [[1, 0], [0, 0], [0, 1 :: real]]. length ?quats \<le> length row" by simp
  from initial_params [OF h1 h2 h3 h4] obtain js where
    l: "load_queue ext0 ?quats = Inr js" and n: "length js = 2"
    and e: "\<forall>i<2. js ! i = (i, [[0, pi / 2] ! i * [[1, 0], [0, 0], [0, 1]] ! 0 ! i,
                                 [0, pi / 2] ! i * [[1, 0], [0, 0], [0, 1]] ! 1 ! i,
                                 [0, pi / 2] ! i * [[1, 0], [0, 0], [0, 1]] ! 2 ! i,
                                 0, 0, 0, 1, 1, 1, 0, 0, 0])"
    by auto
  have "js ! 0 = (0, [0, 0, 0, 0, 0, 0, 1, 1, 1, 0, 0, 0])" using e by simp
  moreover have "js ! 1 = (1, [0, 0, pi / 2, 0, 0, 0, 1, 1, 1, 0, 0, 0])"
    using e [rule_format, of 1] by simp
  moreover have "js = [js ! 0, js ! 1]"
    using n by (cases js; cases "tl js") auto
  ultimately have "js = [(0, [0, 0, 0, 0, 0, 0, 1, 1, 1, 0, 0, 0]),
            (1, [0, 0, pi / 2, 0, 0, 0, 1, 1, 1, 0, 0, 0])]"
    by simp
  then show ?thesis using l by simp
qed

text \<open>
  Claim C7. Results with distinct grain ids, each with twelve parameters, are sorted into
  strictly ascending id order; the report is written, with one row for every result in
  that order, and every permutation of the results gives the same report.
\<close>

theorem report_order:
  assumes "distinct (map grain_id rs)"
    and "\<forall>r \<in> set rs. length (g_refined r) = 12"
  shows "\<exists>srt ls. sorted_results rs = Inr srt
           \<and> mset srt = mset rs
           \<and> sorted_wrt (<) (map grain_id srt)
           \<and> grains_out ext rs = Inr (header_line # ls)
           \<and> length ls = length rs
           \<and> (\<forall>k<length rs. \<exists>items. res_items (srt ! k) = Inr items
                  \<and> ls ! k = row_line ext (grain_id (srt ! k)) items)
           \<and> (\<forall>rs'. mset rs' = mset rs \<longrightarrow> grains_out ext rs' = Inr (header_line # ls))"
proof -
  let ?srt = "sort_key grain_id rs"
  have a: "sorted_results rs = Inr ?srt" using assms(1) by (simp add: sorted_results_def)
  have m: "mset ?srt = mset rs" by simp
  have b: "sorted_wrt (<) (map grain_id ?srt)"
    using assms(1) by (simp add: strict_sorted_iff distinct_map)
  have "\<forall>r \<in> set ?srt. length (g_refined r) = 12" using assms(2) by simp
  from row_lines_total [OF this] obtain ls where l: "row_lines ext ?srt = Inr ls" by blast
  have g: "grains_out ext rs = Inr (header_line # ls)"
    using a l by (simp add: grains_out_def)
  have n: "length ls = length rs" using row_lines_rows [OF l] by simp
  have c: "\<forall>k<length rs. \<exists>items. res_items (?srt ! k) = Inr items
                  \<and> ls ! k = row_line ext (grain_id (?srt ! k)) items"
    using row_lines_rows [OF l] by simp
  have d: "\<forall>rs'. mset rs' = mset rs \<longrightarrow> grains_out ext rs' = Inr (header_line # ls)"
  proof (intro allI impI)
    fix rs' assume p: "mset rs' = mset rs"
    have "mset (map grain_id rs') = mset (map grain_id rs)" using p by simp
    then have d': "distinct (map grain_id rs')"
      using assms(1) by (metis mset_eq_imp_distinct_iff)
    have e: "sort_key grain_id rs' = ?srt"
      by (rule sort_key_perm_distinct [OF assms(1) p])
    show "grains_out ext rs' = Inr (header_line # ls)"
      unfolding grains_out_def sorted_results_def using d' e l by simp
  qed
  from a m b g n c d show ?thesis by blast
qed

theorem report_order_witness:
  "grains_out ext0 [res_hi, res_lo]
     = Inr [header_line,
            row_line ext0 0 [0, 4, 0, 0, 0, 0, 0, 0, 1, 1, 1, 0, 0, 0, 0, 0, 0, 0, 0, 0],
            row_line ext0 1 [13 / 16, 52, 0, 0, 0, 0, 0, 0, 1, 5 / 2, 5 / 2, - 3 * sqrt 2 / 2,
                             0, 0, 0, - ln 2, - ln 2, ln 2, 0, 0]]
   \<and> grains_out ext0 [res_lo, res_hi] = grains_out ext0 [res_hi, res_lo]"
proof -
  have d: "distinct (map grain_id [res_hi, res_lo])" by (simp add: res_hi_def res_lo_def)
  have t: "\<forall>r \<in> set [res_hi, res_lo]. length (g_refined r) = 12"
    by (simp add: res_hi_def res_lo_def)
  have s: "sort_key grain_id [res_hi, res_lo] = [res_lo, res_hi]"
    by (simp add: res_hi_def res_lo_def)
  from report_order [OF d t, of ext0] obtain srt ls where
    a: "sorted_results [res_hi, res_lo] = Inr srt"
    and g: "grains_out ext0 [res_hi, res_lo] = Inr (header_line # ls)"
    and n0: "length ls = length [res_hi, res_lo]"
    and c0: "\<forall>k<length [res_hi, res_lo]. \<exists>items. res_items (srt ! k) = Inr items
                  \<and> ls ! k = row_line ext0 (grain_id (srt ! k)) items"
    and p: "\<forall>rs'. mset rs' = mset [res_hi, res_lo]
              \<longrightarrow> grains_out ext0 rs' = Inr (header_line # ls)"
    by blast
  have n: "length ls = 2" using n0 by simp
  have c: "\<And>k. k < 2 \<Longrightarrow> \<exists>items. res_items (srt ! k) = Inr items
                  \<and> ls ! k = row_line ext0 (grain_id (srt ! k)) items"
    using c0 by simp
  have srt: "srt = [res_lo, res_hi]"
    using a d s by (simp add: sorted_results_def)
  have l0: "ls ! 0 = row_line ext0 0 [0, 4, 0, 0, 0, 0, 0, 0, 1, 1, 1, 0, 0, 0, 0, 0, 0, 0, 0, 0]"
    using c [of 0] srt by (simp add: res_items_lo) (simp add: res_lo_def)
  have l1: "ls ! 1 = row_line ext0 1 [13 / 16, 52, 0, 0, 0, 0, 0, 0, 1, 5 / 2, 5 / 2,
                             - 3 * sqrt 2 / 2, 0, 0, 0, - ln 2, - ln 2, ln 2, 0, 0]"
    using c [of 1] srt by (simp add: res_items_hi) (simp add: res_hi_def)
  have "ls = [ls ! 0, ls ! 1]" using n by (cases ls; cases "tl ls") auto
  then have ls: "ls = [row_line ext0 0 [0, 4, 0, 0, 0, 0, 0, 0, 1, 1, 1, 0, 0, 0, 0, 0, 0, 0, 0, 0],
            row_line ext0 1 [13 / 16, 52, 0, 0, 0, 0, 0, 0, 1, 5 / 2, 5 / 2, - 3 * sqrt 2 / 2,
                             0, 0, 0, - ln 2, - ln 2, ln 2, 0, 0]]"
    using l0 l1 by simp
  have q: "mset [res_lo, res_hi] = mset [res_hi, res_lo]" by simp
  have "grains_out ext0 [res_lo, res_hi] = Inr (header_line # ls)"
    using p q by blast
  then show ?thesis using g ls by simp
qed

text \<open>
  Claim C8. The run loop of a worker goes on as long as \<^verbatim>\<open>loop\<close> takes and finishes a
  job, and returns normally exactly when the dequeue signals an empty queue: at the signal
  it returns the state as it is, and whenever it returns, the last call of \<^verbatim>\<open>loop\<close> gave
  the signal. The signal comes from the dequeue only (an empty queue, or a head that is
  not available to the call), never leaves \<^verbatim>\<open>run\<close> as an exception, and adds no result:
  the results appended are those of the jobs taken, one each. Any other exception leaves
  \<^verbatim>\<open>run\<close> as it is.
\<close>

theorem run_until_empty:
  "run ext ready k st \<noteq> Inl Empty
   \<and> (\<forall>b. loop ext b st = Inl Empty \<longleftrightarrow> jobs st = [] \<or> \<not> b)
   \<and> (loop ext (ready k) st = Inl Empty \<longrightarrow> run ext ready k st = Inr st)
   \<and> (\<forall>st1. loop ext (ready k) st = Inr st1 \<longrightarrow> run ext ready k st = run ext ready (Suc k) st1)
   \<and> (\<forall>e. loop ext (ready k) st = Inl e \<and> e \<noteq> Empty \<longrightarrow> run ext ready k st = Inl e)
   \<and> (\<forall>st'. run ext ready k st = Inr st' \<longrightarrow>
         (\<exists>taken rs. loop ext (ready (k + length taken)) st' = Inl Empty
            \<and> jobs st = taken @ jobs st' \<and> results st' = results st @ rs
            \<and> map grain_id rs = map fst taken))"
proof -
  have a: "\<forall>b. loop ext b st = Inl Empty \<longleftrightarrow> jobs st = [] \<or> \<not> b"
    by (simp add: loop_Empty_iff)
  have b: "loop ext (ready k) st = Inl Empty \<longrightarrow> run ext ready k st = Inr st" by simp
  have c: "\<forall>st1. loop ext (ready k) st = Inr st1
             \<longrightarrow> run ext ready k st = run ext ready (Suc k) st1"
    by simp
  have d: "\<forall>e. loop ext (ready k) st = Inl e \<and> e \<noteq> Empty \<longrightarrow> run ext ready k st = Inl e"
    by (auto split: exc.splits)
  have e: "\<forall>st'. run ext ready k st = Inr st' \<longrightarrow>
         (\<exists>taken rs. loop ext (ready (k + length taken)) st' = Inl Empty
            \<and> jobs st = taken @ jobs st' \<and> results st' = results st @ rs
            \<and> map grain_id rs = map fst taken)"
    using run_result [of ext ready k st] by blast
  from run_not_Empty [of ext ready k st] a b c d e show ?thesis by blast
qed

theorem run_until_empty_witness:
  "run ext0 (\<lambda>k. k = 0) 0
       \<lparr>jobs = [(0, g0), (1, g0)], results = [], spots = Map.empty, pk = p0\<rparr>
     = Inr \<lparr>jobs = [(1, g0)], results = [res_lo], spots = Map.empty(0 \<mapsto> tbl_few), pk = p_few\<rparr>
   \<and> run ext0 (\<lambda>k. True) 0 \<lparr>jobs = [(0, g0)], results = [], spots = Map.empty, pk = p0\<rparr>
     = Inr \<lparr>jobs = [], results = [res_lo], spots = Map.empty(0 \<mapsto> tbl_few), pk = p_few\<rparr>"
proof -
  let ?st = "\<lparr>jobs = [(0, g0), (1, g0)], results = [], spots = Map.empty, pk = p0\<rparr>"
  let ?st1 = "\<lparr>jobs = [(1, g0)], results = [res_lo], spots = Map.empty(0 \<mapsto> tbl_few),
               pk = p_few\<rparr>"
  let ?su = "\<lparr>jobs = [(0, g0)], results = [], spots = Map.empty, pk = p0\<rparr>"
  let ?su1 = "\<lparr>jobs = [], results = [res_lo], spots = Map.empty(0 \<mapsto> tbl_few), pk = p_few\<rparr>"
  have l: "loop ext0 ((\<lambda>k. k = 0) (0::nat)) ?st = Inr ?st1" by (simp add: loop_def job_few)
  have m: "loop ext0 ((\<lambda>k. k = 0) (Suc 0)) ?st1 = Inl Empty" by (simp add: loop_def)
  have l': "loop ext0 ((\<lambda>k. True) (0::nat)) ?su = Inr ?su1" by (simp add: loop_def job_few)
  have m': "loop ext0 ((\<lambda>k. True) (Suc 0)) ?su1 = Inl Empty" by (simp add: loop_def)
  note a = run_until_empty [of ext0 "\<lambda>k. k = 0" 0 ?st]
    and b = run_until_empty [of ext0 "\<lambda>k. k = 0" "Suc 0" ?st1]
    and a' = run_until_empty [of ext0 "\<lambda>k. True" 0 ?su]
    and b' = run_until_empty [of ext0 "\<lambda>k. True" "Suc 0" ?su1]
  have "run ext0 (\<lambda>k. k = 0) 0 ?st = run ext0 (\<lambda>k. k = 0) (Suc 0) ?st1" using a l by blast
  moreover have "run ext0 (\<lambda>k. k = 0) (Suc 0) ?st1 = Inr ?st1" using b m by blast
  moreover have "run ext0 (\<lambda>k. True) 0 ?su = run ext0 (\<lambda>k. True) (Suc 0) ?su1"
    using a' l' by blast
  moreover have "run ext0 (\<lambda>k. True) (Suc 0) ?su1 = Inr ?su1" using b' m' by blast
  ultimately show ?thesis by simp
qed

text \<open>
  Claim C9. Start the pool for \<open>n\<close> quaternions and run any schedule of worker steps.
  If at the end the queue is empty and no worker holds a job, the result list has \<open>n\<close>
  entries and their grain ids are exactly 0, ..., \<open>n - 1\<close>, each once.
\<close>

theorem all_jobs_collected:
  assumes "start_pool ext quats files p ncpus = Inr s0"
    and "all_done (exec ext sched s0)"
  shows "length (collected (exec ext sched s0)) = length quats
         \<and> set (map grain_id (collected (exec ext sched s0))) = {0..<length quats}
         \<and> distinct (map grain_id (collected (exec ext sched s0)))"
proof -
  let ?s = "exec ext sched s0"
  from assms(1) obtain js where
    js: "load_queue ext quats = Inr js"
    and s0: "s0 = \<lparr>queue = js, collected = [], disk = files,
               workers = replicate ncpus \<lparr>holding = None, wpk = p, alive = True\<rparr>\<rparr>"
    by (auto simp: start_pool_def split: sum.splits)
  have "sum_list (map held (workers s0)) = {#}"
    by (rule sum_list_held_none) (simp add: s0 list_all_iff)
  then have i0: "ids_of s0 = mset [0..<length quats]"
    using load_queue_ids [OF js] by (simp add: ids_of_def s0)
  have "sum_list (map held (workers ?s)) = {#}"
    using assms(2) by (simp add: all_done_def sum_list_held_none)
  then have "ids_of ?s = mset (map grain_id (collected ?s))"
    using assms(2) by (simp add: ids_of_def all_done_def)
  then have m: "mset (map grain_id (collected ?s)) = mset [0..<length quats]"
    using i0 exec_ids [of ext sched s0] by simp
  have l: "length (collected ?s) = length quats"
    using mset_eq_length [OF m] by simp
  have st: "set (map grain_id (collected ?s)) = {0..<length quats}"
    using mset_eq_setD [OF m] by simp
  have d: "distinct (map grain_id (collected ?s))"
    using mset_eq_imp_distinct_iff [OF m] by simp
  show ?thesis using l st d by blast
qed

theorem all_jobs_collected_witness:
  "start_pool ext0 [[1, 0, 0, 0], [1, 0, 0, 0]] Map.empty p0 2 = Inr pool0
   \<and> all_done (exec ext0 [(0, True), (1, True), (1, True), (0, True), (0, True), (1, True)] pool0)
   \<and> map grain_id (collected (exec ext0 [(0, True), (1, True), (1, True), (0, True), (0, True), (1, True)] pool0)) = [1, 0]
   \<and> length (collected (exec ext0 [(0, True), (1, True), (1, True), (0, True), (0, True), (1, True)] pool0)) = 2
   \<and> set (map grain_id (collected (exec ext0 [(0, True), (1, True), (1, True), (0, True), (0, True), (1, True)] pool0))) = {0..<2}"
proof -
  have d: "all_done (exec ext0 [(0, True), (1, True), (1, True), (0, True), (0, True), (1, True)] pool0)"
    unfolding exec_pool0 by (simp add: all_done_def)
  have i: "map grain_id (collected (exec ext0 [(0, True), (1, True), (1, True), (0, True), (0, True), (1, True)] pool0)) = [1, 0]"
    unfolding exec_pool0 by (simp add: res_hi_def res_lo_def)
  from all_jobs_collected [OF start_pool0 d]
  have "length (collected (exec ext0 [(0, True), (1, True), (1, True), (0, True), (0, True), (1, True)] pool0)) = 2
   \<and> set (map grain_id (collected (exec ext0 [(0, True), (1, True), (1, True), (0, True), (0, True), (1, True)] pool0))) = {0..<2}"
    by (simp add: numeral_2_eq_2)
  then show ?thesis using start_pool0 d i by blast
qed



end
